theory Spec2Isabelle
  imports Main
begin

unbundle bit_operations_syntax

section \<open>The GreatFET SPI bus driver (host/greatfet/peripherals/spi_bus.py)\<close>

text \<open>
  The driver is a Python class \<open>SPIBus\<close> with three methods: the constructor, which packs
  the two clock parameters into one word and sends it to the board; \<open>attach_device\<close>, which
  appends to the list of devices; and \<open>transmit\<close>, which pads the caller's list, checks it
  against the buffer size, writes it to the board and reads the answer back.

  Python objects are mutable and passed by reference, so the model keeps them in an
  explicit store, with one table per kind of object: boards, buses and the lists of bytes
  callers hand to \<open>transmit\<close>. A method takes the store and returns the store it leaves
  behind, also when it raises: an exception does not undo a mutation made before it.
  Python's integers are unbounded (\<open>int\<close>); a byte list is a list of such integers, as the
  source never checks the range of an element.
\<close>

subsection \<open>The board\<close>

text \<open>
  Modelled from the spec: the module \<open>protocol.vendor_requests\<close> is not part of the
  sources at hand; the driver uses its three request numbers by name only.
\<close>

datatype vendor_request = SPI_INIT | SPI_WRITE | SPI_READ

text \<open>
  The exceptions a call can end in: the driver's own \<open>ValueError\<close>, with its message, and
  whatever the transport of the board raises.
\<close>

datatype error = ValueError string | TransportError string

text \<open>
  A request as it reaches the board, with the keyword arguments the caller passed
  (\<open>None\<close> for one it left out).
\<close>

datatype request =
    Request_Out vendor_request "int option" "int list option"
  | Request_In vendor_request int

text \<open>
  Modelled from the spec: the board class is not part of the sources at hand. The spec
  gives its contract: \<open>sendControlRequest(requestId, value, data)\<close> returns nothing or fails
  with a transport error; \<open>receiveControlRequest(requestId, length)\<close> returns bytes or
  fails with a transport error. The board is a parameter of the model: it keeps the
  requests that reached it, oldest first, and its answer to a request is any function
  of everything it has been sent so far, the request at hand included.
\<close>

record GreatFET =
  requests :: "request list"
  answer_out :: "request list \<Rightarrow> error option"
  answer_in :: "request list \<Rightarrow> error + int list"

subsection \<open>The bus object and the store\<close>

type_synonym ref = nat

record 'd SPIBus =
  board :: ref
  buffer_size :: int
  devices :: "'d list"

record 'd heap =
  boards :: "ref \<Rightarrow> GreatFET"
  buses :: "ref \<Rightarrow> 'd SPIBus"
  seqs :: "ref \<Rightarrow> int list"

text \<open>
  Modelled from the spec: the two transport calls of the board (not part of the sources
  at hand). Each records the request with the board and gives the board's answer; the
  request is on record also when the answer is a failure. The board gets the contents
  of the list at the time of the call, and touches neither the bus nor the caller's list.
\<close>

definition vendor_request_out ::
  "ref \<Rightarrow> vendor_request \<Rightarrow> int option \<Rightarrow> int list option \<Rightarrow> 'd heap \<Rightarrow> error option \<times> 'd heap"
where
  "vendor_request_out b req val dat s =
     (let brd = boards s b;
          rs = requests brd @ [Request_Out req val dat]
      in (answer_out brd rs, s\<lparr>boards := (boards s)(b := brd\<lparr>requests := rs\<rparr>)\<rparr>))"

definition vendor_request_in ::
  "ref \<Rightarrow> vendor_request \<Rightarrow> int \<Rightarrow> 'd heap \<Rightarrow> (error + int list) \<times> 'd heap"
where
  "vendor_request_in b req len s =
     (let brd = boards s b;
          rs = requests brd @ [Request_In req len]
      in (answer_in brd rs, s\<lparr>boards := (boards s)(b := brd\<lparr>requests := rs\<rparr>)\<rparr>))"

subsection \<open>The methods of the bus\<close>

text \<open>
  The constructor fills the fields of the new object \<open>self\<close> and sends the clock word
  \<open>serial_clock_rate << 8 | clock_prescale_rate\<close> (the shift binds tighter than the or).
  The display name is accepted and not stored.
\<close>

definition SPIBus_init ::
  "ref \<Rightarrow> ref \<Rightarrow> string \<Rightarrow> int \<Rightarrow> int \<Rightarrow> int \<Rightarrow> 'd heap \<Rightarrow> error option \<times> 'd heap"
where
  "SPIBus_init self brd name bufsize serial_clock_rate clock_prescale_rate s =
     (let s1 = s\<lparr>buses := (buses s)(self :=
                 \<lparr>board = brd, buffer_size = bufsize, devices = []\<rparr>)\<rparr>;
          freq = push_bit 8 serial_clock_rate OR clock_prescale_rate
      in vendor_request_out brd SPI_INIT (Some freq) None s1)"

definition attach_device :: "ref \<Rightarrow> 'd \<Rightarrow> 'd heap \<Rightarrow> 'd heap" where
  "attach_device self device s =
     s\<lparr>buses := (buses s)(self :=
         (buses s self)\<lparr>devices := devices (buses s self) @ [device]\<rparr>)\<rparr>"

text \<open>The exception \<open>transmit\<close> raises when the payload does not fit the buffer.\<close>

definition capacity_error :: error where
  "capacity_error =
     ValueError ''Tried to send/receive more than the size of the receive buffer.''"

text \<open>
  \<open>transmit\<close> takes the caller's list by reference (\<open>data\<close>) and the optional length to
  read. The result pairs what the call ends in (\<open>Inl\<close> an exception, \<open>Inr\<close> the value
  returned) with the store it leaves.
\<close>

definition transmit ::
  "ref \<Rightarrow> ref \<Rightarrow> int option \<Rightarrow> 'd heap \<Rightarrow> (error + int list) \<times> 'd heap"
where
  "transmit self data receive_length s =
     (let receive_length =
            (case receive_length of None \<Rightarrow> int (length (seqs s data)) | Some n \<Rightarrow> n);
          s1 = (if receive_length > int (length (seqs s data))
                then (let padding = receive_length - int (length (seqs s data))
                      in s\<lparr>seqs := (seqs s)(data :=
                           seqs s data @ replicate (nat padding) 0)\<rparr>)
                else s)
      in if int (length (seqs s1 data)) > buffer_size (buses s1 self)
         then (Inl capacity_error, s1)
         else (case vendor_request_out (board (buses s1 self)) SPI_WRITE None
                      (Some (seqs s1 data)) s1 of
                 (Some e, s2) \<Rightarrow> (Inl e, s2)
               | (None, s2) \<Rightarrow>
                   if receive_length > 0
                   then vendor_request_in (board (buses s2 self)) SPI_READ receive_length s2
                   else (Inr [], s2)))"

subsection \<open>Vocabulary for the properties\<close>

text \<open>
  The two requests \<open>transmit\<close> makes, the board a bus refers to, and what it means for
  that board, as it stands in a store, to accept the write of a payload: its answer to
  the write, coming after everything it has been sent, is no failure.
\<close>

abbreviation write_req :: "int list \<Rightarrow> request" where
  "write_req payload \<equiv> Request_Out SPI_WRITE None (Some payload)"

abbreviation read_req :: "int \<Rightarrow> request" where
  "read_req n \<equiv> Request_In SPI_READ n"

abbreviation bus_board :: "'d heap \<Rightarrow> ref \<Rightarrow> GreatFET" where
  "bus_board s self \<equiv> boards s (board (buses s self))"

definition write_accepted :: "'d heap \<Rightarrow> ref \<Rightarrow> int list \<Rightarrow> bool" where
  "write_accepted s self payload =
     (answer_out (bus_board s self)
        (requests (bus_board s self) @ [write_req payload]) = None)"

subsection \<open>A concrete store\<close>

text \<open>
  One board, which has seen the constructor's request, accepts every write and answers
  a read of \<open>n\<close> bytes with \<open>n\<close> bytes \<open>255\<close>; a second board, which fails every write.
  Bus 0 has a buffer of four bytes, bus 1 a buffer of two bytes, both on board 0; every
  other bus is on the failing board 1. The caller's lists: list 0 holds three bytes,
  list 1 is empty, every other list holds one byte.
\<close>

definition demo_board :: GreatFET where
  "demo_board =
     \<lparr>requests = [Request_Out SPI_INIT (Some 612) None],
      answer_out = (\<lambda>rs. None),
      answer_in = (\<lambda>rs. Inr (case last rs of
                                Request_In req n \<Rightarrow> replicate (nat n) 255
                              | Request_Out req val dat \<Rightarrow> []))\<rparr>"

definition dead_board :: GreatFET where
  "dead_board =
     \<lparr>requests = [],
      answer_out = (\<lambda>rs. Some (TransportError ''pipe error'')),
      answer_in = (\<lambda>rs. Inl (TransportError ''pipe error''))\<rparr>"

definition demo_heap :: "string heap" where
  "demo_heap =
     \<lparr>boards = (\<lambda>b. if b = 0 then demo_board else dead_board),
      buses = (\<lambda>b. if b = 0 then \<lparr>board = 0, buffer_size = 4, devices = []\<rparr>
                    else if b = 1 then \<lparr>board = 0, buffer_size = 2, devices = [''flash'']\<rparr>
                    else \<lparr>board = 1, buffer_size = 4, devices = []\<rparr>),
      seqs = (\<lambda>r. if r = 0 then [1, 2, 3] else if r = 1 then [] else [7])\<rparr>"

section \<open>Properties\<close>

lemmas transmit_defs =
  transmit_def vendor_request_out_def vendor_request_in_def Let_def

lemmas demo_defs = demo_heap_def demo_board_def dead_board_def

subsection \<open>Transport failure\<close>

text \<open>
  A payload that fits and a board that fails the write: the request is on record, no
  read follows, and the call ends in the board's exception, unchanged.
\<close>

lemma transmit_write_refused:
  assumes "int (length (seqs s data)) \<le> buffer_size (buses s self)"
    and "(case rl of None \<Rightarrow> int (length (seqs s data)) | Some n \<Rightarrow> n)
           \<le> int (length (seqs s data))"
    and "answer_out (bus_board s self)
           (requests (bus_board s self) @ [write_req (seqs s data)]) = Some e"
  shows "fst (transmit self data rl s) = Inl e
         \<and> requests (bus_board (snd (transmit self data rl s)) self)
             = requests (bus_board s self) @ [write_req (seqs s data)]"
  using assms by (auto simp: transmit_defs split: option.splits)

lemma transmit_write_refused_example:
  "fst (transmit 2 0 None demo_heap) = Inl (TransportError ''pipe error'')
   \<and> requests (boards (snd (transmit 2 0 None demo_heap)) 1) = [write_req [1, 2, 3]]"
  by (simp add: transmit_defs demo_defs)

subsection \<open>The bounds check\<close>

text \<open>
  C1. Whenever the length of the payload after padding, the larger of \<open>len(data)\<close> and
  the effective receive length, exceeds \<open>buffer_size\<close>, the call ends in the
  \<open>ValueError\<close> and no request has reached any board: the boards, with their records
  of requests, are as they were.
\<close>

theorem transmit_over_capacity:
  assumes "buffer_size (buses s self) <
           max (int (length (seqs s data)))
               (case rl of None \<Rightarrow> int (length (seqs s data)) | Some n \<Rightarrow> n)"
  shows "fst (transmit self data rl s) = Inl capacity_error
         \<and> boards (snd (transmit self data rl s)) = boards s"
  using assms by (auto simp: transmit_defs split: option.splits)

text \<open>C1 on the concrete store: three bytes to send, five to receive, a buffer of four.\<close>

theorem transmit_over_capacity_witness:
  "buffer_size (buses demo_heap 0) < max (int (length (seqs demo_heap 0))) 5
   \<and> fst (transmit 0 0 (Some 5) demo_heap) = Inl capacity_error
   \<and> boards (snd (transmit 0 0 (Some 5) demo_heap)) = boards demo_heap"
  using transmit_over_capacity [where s = demo_heap and self = 0 and data = 0 and rl = "Some 5"]
  by (simp add: demo_defs)

text \<open>
  C8. The capacity failure leaves its mark on the caller's list: with a receive length
  above both \<open>len(data)\<close> and \<open>buffer_size\<close>, the call ends in the \<open>ValueError\<close>, and
  the caller's list is the old one followed by the zero padding, of length
  \<open>receive_length\<close>, since the padding is applied before the bounds check.
\<close>

theorem transmit_capacity_failure_keeps_padding:
  assumes "int (length (seqs s data)) < r" and "buffer_size (buses s self) < r"
  shows "fst (transmit self data (Some r) s) = Inl capacity_error
         \<and> seqs (snd (transmit self data (Some r) s)) data
             = seqs s data @ replicate (nat (r - int (length (seqs s data)))) 0
         \<and> int (length (seqs (snd (transmit self data (Some r) s)) data)) = r"
  using assms by (auto simp: transmit_defs)

text \<open>C8 on the concrete store: one byte to send, five to receive, a buffer of four.\<close>

theorem transmit_capacity_failure_keeps_padding_witness:
  "int (length (seqs demo_heap 2)) < 5 \<and> buffer_size (buses demo_heap 0) < 5
   \<and> fst (transmit 0 2 (Some 5) demo_heap) = Inl capacity_error
   \<and> seqs (snd (transmit 0 2 (Some 5) demo_heap)) 2 = [7, 0, 0, 0, 0]
   \<and> seqs demo_heap 2 = [7]"
  using transmit_capacity_failure_keeps_padding
          [where s = demo_heap and self = 0 and data = 2 and r = 5]
  by (simp add: demo_defs numeral_eq_Suc)

subsection \<open>Padding\<close>

text \<open>
  C2, as stated, fails: a receive length above \<open>len(data)\<close> that is also above
  \<open>buffer_size\<close> sends nothing. On the concrete store, one byte to send and five to
  receive with a buffer of four: the board's record of requests is as it was, so neither
  the padded payload nor a read of five bytes was requested.
\<close>

theorem transmit_padding_beyond_buffer_sends_nothing:
  "int (length (seqs demo_heap 2)) < 5
   \<and> requests (bus_board (snd (transmit 0 2 (Some 5) demo_heap)) 0)
       = requests (bus_board demo_heap 0)
   \<and> requests (bus_board (snd (transmit 0 2 (Some 5) demo_heap)) 0)
       \<noteq> requests (bus_board demo_heap 0) @ [write_req [7, 0, 0, 0, 0], read_req 5]"
  by (simp add: transmit_defs demo_defs)

text \<open>
  C2, amended. For a receive length above \<open>len(data)\<close> and at most \<open>buffer_size\<close>:
  the caller's list is extended in place to the old contents followed by
  \<open>receive_length - len(data)\<close> zero bytes, the write carries that padded payload, and,
  the board having accepted the write, the read that follows asks for exactly
  \<open>receive_length\<close> bytes.
\<close>

theorem transmit_pads_then_reads:
  assumes "int (length (seqs s data)) < r" and "r \<le> buffer_size (buses s self)"
    and "write_accepted s self
           (seqs s data @ replicate (nat (r - int (length (seqs s data)))) 0)"
  shows "seqs (snd (transmit self data (Some r) s)) data
           = seqs s data @ replicate (nat (r - int (length (seqs s data)))) 0
         \<and> requests (bus_board (snd (transmit self data (Some r) s)) self)
             = requests (bus_board s self) @
               [write_req (seqs s data @ replicate (nat (r - int (length (seqs s data)))) 0),
                read_req r]"
  using assms by (auto simp: transmit_defs write_accepted_def)

text \<open>C2, amended, on the concrete store: one byte to send, three to receive.\<close>

theorem transmit_pads_then_reads_witness:
  "int (length (seqs demo_heap 2)) < 3 \<and> 3 \<le> buffer_size (buses demo_heap 0)
   \<and> write_accepted demo_heap 0 [7, 0, 0]
   \<and> seqs (snd (transmit 0 2 (Some 3) demo_heap)) 2 = [7, 0, 0]
   \<and> requests (bus_board (snd (transmit 0 2 (Some 3) demo_heap)) 0)
       = [Request_Out SPI_INIT (Some 612) None, write_req [7, 0, 0], read_req 3]"
  using transmit_pads_then_reads [where s = demo_heap and self = 0 and data = 2 and r = 3]
  by (simp add: demo_defs write_accepted_def numeral_eq_Suc)

subsection \<open>The default receive length\<close>

text \<open>
  C3, as stated, fails for the empty list: its length is within every non-negative
  buffer size, the default receive length is then zero, and the call issues the write
  and no read. On the concrete store the board's record grows by the one write.
\<close>

theorem transmit_empty_default_issues_no_read:
  "int (length (seqs demo_heap 1)) \<le> buffer_size (buses demo_heap 0)
   \<and> requests (bus_board (snd (transmit 0 1 None demo_heap)) 0)
       = requests (bus_board demo_heap 0) @ [write_req []]
   \<and> requests (bus_board (snd (transmit 0 1 None demo_heap)) 0)
       \<noteq> requests (bus_board demo_heap 0) @ [write_req [], read_req 0]
   \<and> fst (transmit 0 1 None demo_heap) = Inr []"
  by (simp add: transmit_defs demo_defs)

text \<open>
  C3, amended. For a non-empty list of at most \<open>buffer_size\<close> bytes and no receive
  length given: the call issues one write carrying the list, which it leaves as it was,
  then, the board having accepted the write, one read of \<open>len(data)\<close> bytes, and nothing
  else; and it ends in exactly what the board answers to that read.
\<close>

theorem transmit_default_receive_length:
  assumes "seqs s data \<noteq> []"
    and "int (length (seqs s data)) \<le> buffer_size (buses s self)"
    and "write_accepted s self (seqs s data)"
  shows "requests (bus_board (snd (transmit self data None s)) self)
           = requests (bus_board s self) @
             [write_req (seqs s data), read_req (int (length (seqs s data)))]
         \<and> seqs (snd (transmit self data None s)) = seqs s
         \<and> fst (transmit self data None s)
             = answer_in (bus_board s self) (requests (bus_board s self) @
                 [write_req (seqs s data), read_req (int (length (seqs s data)))])"
  using assms by (auto simp: transmit_defs write_accepted_def)

text \<open>C3, amended, on the concrete store: three bytes sent, three bytes read back.\<close>

theorem transmit_default_receive_length_witness:
  "seqs demo_heap 0 \<noteq> [] \<and> int (length (seqs demo_heap 0)) \<le> buffer_size (buses demo_heap 0)
   \<and> write_accepted demo_heap 0 [1, 2, 3]
   \<and> requests (bus_board (snd (transmit 0 0 None demo_heap)) 0)
       = [Request_Out SPI_INIT (Some 612) None, write_req [1, 2, 3], read_req 3]
   \<and> seqs (snd (transmit 0 0 None demo_heap)) = seqs demo_heap
   \<and> fst (transmit 0 0 None demo_heap) = Inr [255, 255, 255]"
  using transmit_default_receive_length [where s = demo_heap and self = 0 and data = 0]
  by (simp add: demo_defs write_accepted_def numeral_eq_Suc)

subsection \<open>Receiving nothing, receiving less\<close>

text \<open>
  C4. For a list of at most \<open>buffer_size\<close> bytes and an effective receive length of
  zero (a zero given, or none given with the empty list): the board's record grows by the
  write carrying the list and by nothing else, so no read is issued; and the call
  returns the empty sequence, unless the write itself failed, whose exception it then
  ends in.
\<close>

theorem transmit_zero_receive_length:
  assumes "int (length (seqs s data)) \<le> buffer_size (buses s self)"
    and "(case rl of None \<Rightarrow> int (length (seqs s data)) | Some n \<Rightarrow> n) = 0"
  shows "requests (bus_board (snd (transmit self data rl s)) self)
           = requests (bus_board s self) @ [write_req (seqs s data)]
         \<and> fst (transmit self data rl s)
             = (case answer_out (bus_board s self)
                      (requests (bus_board s self) @ [write_req (seqs s data)]) of
                  None \<Rightarrow> Inr [] | Some e \<Rightarrow> Inl e)"
  using assms by (auto simp: transmit_defs split: option.splits)

text \<open>C4 on the concrete store: three bytes sent, none asked back.\<close>

theorem transmit_zero_receive_length_witness:
  "int (length (seqs demo_heap 0)) \<le> buffer_size (buses demo_heap 0)
   \<and> requests (bus_board (snd (transmit 0 0 (Some 0) demo_heap)) 0)
       = [Request_Out SPI_INIT (Some 612) None, write_req [1, 2, 3]]
   \<and> fst (transmit 0 0 (Some 0) demo_heap) = Inr []"
  using transmit_zero_receive_length
          [where s = demo_heap and self = 0 and data = 0 and rl = "Some 0"]
  by (simp add: demo_defs)

text \<open>
  C9. For a receive length above zero and at most \<open>len(data)\<close>, the list within
  \<open>buffer_size\<close>: no list in the store changes, so there is no padding; the one write
  carries the list as it is; the board having accepted the write, the read asks for
  exactly \<open>receive_length\<close> bytes, which may be fewer than were sent; and the call ends
  in exactly what the board answers to that read.
\<close>

theorem transmit_shorter_receive_length:
  assumes "0 < r" and "r \<le> int (length (seqs s data))"
    and "int (length (seqs s data)) \<le> buffer_size (buses s self)"
    and "write_accepted s self (seqs s data)"
  shows "seqs (snd (transmit self data (Some r) s)) = seqs s
         \<and> requests (bus_board (snd (transmit self data (Some r) s)) self)
             = requests (bus_board s self) @ [write_req (seqs s data), read_req r]
         \<and> fst (transmit self data (Some r) s)
             = answer_in (bus_board s self)
                 (requests (bus_board s self) @ [write_req (seqs s data), read_req r])"
  using assms by (auto simp: transmit_defs write_accepted_def)

text \<open>C9 on the concrete store: three bytes sent, two bytes read back.\<close>

theorem transmit_shorter_receive_length_witness:
  "(0::int) < 2 \<and> 2 \<le> int (length (seqs demo_heap 0))
   \<and> int (length (seqs demo_heap 0)) \<le> buffer_size (buses demo_heap 0)
   \<and> write_accepted demo_heap 0 [1, 2, 3]
   \<and> seqs (snd (transmit 0 0 (Some 2) demo_heap)) = seqs demo_heap
   \<and> requests (bus_board (snd (transmit 0 0 (Some 2) demo_heap)) 0)
       = [Request_Out SPI_INIT (Some 612) None, write_req [1, 2, 3], read_req 2]
   \<and> fst (transmit 0 0 (Some 2) demo_heap) = Inr [255, 255]"
  using transmit_shorter_receive_length
          [where s = demo_heap and self = 0 and data = 0 and r = 2]
  by (simp add: demo_defs write_accepted_def numeral_eq_Suc)

subsection \<open>The order of the requests\<close>

text \<open>
  C7, as stated, fails: the write is not issued in every call. On the concrete store,
  three bytes on the bus with a buffer of two: the call ends in the \<open>ValueError\<close> and
  the board's record holds the constructor's request only, no write.
\<close>

theorem oversized_transmit_issues_no_write:
  "requests (bus_board (snd (transmit 1 0 None demo_heap)) 1)
     = [Request_Out SPI_INIT (Some 612) None]
   \<and> write_req [1, 2, 3] \<notin> set (requests (bus_board (snd (transmit 1 0 None demo_heap)) 1))
   \<and> fst (transmit 1 0 None demo_heap) = Inl capacity_error"
  by (simp add: transmit_defs demo_defs)

text \<open>
  C7, amended. In every call the requests that reach the board are, in this order:
  none, when the payload after padding exceeds \<open>buffer_size\<close>; otherwise the write of
  that payload, followed by the read exactly when the board accepted the write and the
  effective receive length is above zero. So the write is issued whenever the bounds
  check passes, and a read is issued only after the write has completed, never before
  a write and never without one.
\<close>

theorem transmit_request_order:
  "requests (bus_board (snd (transmit self data rl s)) self)
     = requests (bus_board s self) @
       (if buffer_size (buses s self) < int (length (seqs (snd (transmit self data rl s)) data))
        then []
        else if write_accepted s self (seqs (snd (transmit self data rl s)) data)
                \<and> 0 < (case rl of None \<Rightarrow> int (length (seqs s data)) | Some n \<Rightarrow> n)
        then [write_req (seqs (snd (transmit self data rl s)) data),
              read_req (case rl of None \<Rightarrow> int (length (seqs s data)) | Some n \<Rightarrow> n)]
        else [write_req (seqs (snd (transmit self data rl s)) data)])"
  by (auto simp: transmit_defs write_accepted_def split: option.splits)

subsection \<open>The constructor\<close>

text \<open>
  C5. The constructor sends exactly one request, to its board: \<open>SPI_INIT\<close> with the value
  \<open>(serial_clock_rate << 8) | clock_prescale_rate\<close> and no data; every other board is as
  it was. With the rates 2 and 100 the value is \<open>0x0264\<close>.
\<close>

theorem init_sends_clock_word:
  "boards (snd (SPIBus_init self brd name bufsize scr cpr s))
     = (boards s)(brd := (boards s brd)\<lparr>requests := requests (boards s brd) @
          [Request_Out SPI_INIT (Some (push_bit 8 scr OR cpr)) None]\<rparr>)
   \<and> requests (boards (snd (SPIBus_init self brd name bufsize 2 100 s)) brd)
       = requests (boards s brd) @ [Request_Out SPI_INIT (Some 0x0264) None]"
  by (simp add: SPIBus_init_def vendor_request_out_def Let_def)

subsection \<open>The device registry\<close>

text \<open>
  C6. \<open>attach_device\<close> appends the device at the end of the registry, whatever the
  registry holds (no duplicate check, no limit on its length): one call leaves the old
  registry followed by the device, so nothing is removed or reordered, and attaching
  \<open>a\<close> and then \<open>b\<close> leaves the old registry followed by \<open>a\<close>, \<open>b\<close> in that order, also
  when \<open>a\<close> and \<open>b\<close> are the same device or are in the registry already.
\<close>

theorem attach_device_appends:
  "devices (buses (attach_device self d s) self) = devices (buses s self) @ [d]
   \<and> devices (buses (attach_device self b (attach_device self a s)) self)
       = devices (buses s self) @ [a, b]"
  by (simp add: attach_device_def)

subsection \<open>What the methods leave alone\<close>

text \<open>
  C10. \<open>transmit\<close> leaves every bus object as it was, whatever the call ends in: the
  buffer size, the board reference and the device registry of the bus are the same
  after the call. \<open>attach_device\<close> changes the device registry of its bus and nothing
  else: the buffer size and the board reference of the bus, every other bus, the boards
  and the callers' lists are as they were. (A caller's list is a list of bytes and the
  registry a list of devices: the two are different objects.)
\<close>

theorem transmit_attach_frame:
  "buses (snd (transmit self data rl s)) = buses s
   \<and> buffer_size (buses (attach_device self d s) self) = buffer_size (buses s self)
   \<and> board (buses (attach_device self d s) self) = board (buses s self)
   \<and> buses (attach_device self d s)
       = (buses s)(self := (buses s self)\<lparr>devices := devices (buses s self) @ [d]\<rparr>)
   \<and> boards (attach_device self d s) = boards s
   \<and> seqs (attach_device self d s) = seqs s"
  by (auto simp: transmit_defs attach_device_def split: option.splits)

end
